theory Spec2Isabelle
  imports Main
begin

section \<open>JavaScript values\<close>

text \<open>
  The handlers of \<^verbatim>\<open>index.js\<close> receive request bodies parsed from JSON, route
  parameters that are strings, and rows read from the tables. A value is modelled by
  \<open>jsval\<close>. Numbers: an integral number is \<open>JNum n\<close>; every other number (one with a
  fractional part, or an infinity from an overflowing literal) is the single value
  \<open>JFrac\<close>, since the handlers only ask of a number whether it is an integer, whether it
  is truthy and whether its text has the shape of a date or a time. \<open>JDate d\<close> is the
  \<^verbatim>\<open>Date\<close> object that the driver builds for a \<^verbatim>\<open>DATE\<close> column holding the
  day \<open>d\<close>; JSON has no such value, so it comes from a row only. Characters are HOL's
  8-bit characters.
\<close>

datatype jsval =
    JUndefined
  | JNull
  | JBool bool
  | JNum int
  | JFrac
  | JStr string
  | JArr "jsval list"
  | JObj "(string \<times> jsval) list"
  | JDate string

text \<open>Truthiness, as \<^verbatim>\<open>!x\<close>, \<^verbatim>\<open>x && y\<close> and \<^verbatim>\<open>x || y\<close> test it.\<close>

fun truthy :: "jsval \<Rightarrow> bool" where
  "truthy JUndefined = False"
| "truthy JNull = False"
| "truthy (JBool b) = b"
| "truthy (JNum n) = (n \<noteq> 0)"
| "truthy JFrac = True"
| "truthy (JStr s) = (s \<noteq> [])"
| "truthy (JArr xs) = True"
| "truthy (JObj kvs) = True"
| "truthy (JDate d) = True"

text \<open>\<^verbatim>\<open>x || y\<close>\<close>

definition or_else :: "jsval \<Rightarrow> jsval \<Rightarrow> jsval" where
  "or_else x y = (if truthy x then x else y)"

text \<open>\<^verbatim>\<open>typeof x === 'string'\<close>.\<close>

fun is_string :: "jsval \<Rightarrow> bool" where
  "is_string (JStr s) = True"
| "is_string v = False"

text \<open>
  Reading a property of the request body, as the destructuring
  \<^verbatim>\<open>const { A, B } = req.body || {}\<close> does: a body that is not an object, or an
  object without the property, gives \<open>undefined\<close>.
\<close>

fun body_field :: "jsval \<Rightarrow> string \<Rightarrow> jsval" where
  "body_field (JObj kvs) k = (case map_of kvs k of None \<Rightarrow> JUndefined | Some v \<Rightarrow> v)"
| "body_field v k = JUndefined"

subsection \<open>ToString\<close>

fun digits :: "nat \<Rightarrow> string" where
  "digits n =
     (if n < 10 then [char_of (48 + n)] else digits (n div 10) @ [char_of (48 + n mod 10)])"

declare digits.simps [simp del]

definition int_text :: "int \<Rightarrow> string" where
  "int_text n = (if n < 0 then CHR ''-'' # digits (nat (- n)) else digits (nat n))"

fun join :: "string \<Rightarrow> string list \<Rightarrow> string" where
  "join sep [] = []"
| "join sep [x] = x"
| "join sep (x # y # ys) = x @ sep @ join sep (y # ys)"

text \<open>
  The text of a value, as \<^verbatim>\<open>RegExp.prototype.test\<close> takes it from its argument
  (the language's \<open>ToString\<close>). An array is the texts of its elements joined by commas,
  with \<open>null\<close> and \<open>undefined\<close> elements empty. An object is
  \<^verbatim>\<open>[object Object]\<close>, unless it has a property \<open>toString\<close> of its own: parsed
  from JSON that property is no function, the conversion finds no primitive value and
  throws a \<open>TypeError\<close>, here \<open>None\<close>. \<open>JFrac\<close> is given the text of one
  non-integral number; \<open>int_text\<close> is the text of an integral number below \<open>10^21\<close>
  in size (beyond it JavaScript writes an exponent). A \<^verbatim>\<open>Date\<close> object is given the
  text of one date as \<^verbatim>\<open>Date.prototype.toString\<close> writes it: weekday, month, day,
  year, time and zone, which fits neither pattern of the validators.
\<close>

fun to_string :: "jsval \<Rightarrow> string option" where
  "to_string JUndefined = Some ''undefined''"
| "to_string JNull = Some ''null''"
| "to_string (JBool b) = Some (if b then ''true'' else ''false'')"
| "to_string (JNum n) = Some (int_text n)"
| "to_string JFrac = Some ''0.5''"
| "to_string (JStr s) = Some s"
| "to_string (JArr xs) =
     map_option (join '','')
       (those (map (\<lambda>x. if x = JNull \<or> x = JUndefined then Some [] else to_string x) xs))"
| "to_string (JObj kvs) =
     (case map_of kvs ''toString'' of None \<Rightarrow> Some ''[object Object]'' | Some f \<Rightarrow> None)"
| "to_string (JDate d) = Some ''Wed Aug 20 2025 00:00:00 GMT+0000 (Coordinated Universal Time)''"

definition type_error :: string where
  "type_error = ''Cannot convert object to primitive value''"

text \<open>The characters of a string value, for \<^verbatim>\<open>Reason.trim()\<close> behind its type test.\<close>

fun chars_of :: "jsval \<Rightarrow> string" where
  "chars_of (JStr s) = s"
| "chars_of v = []"

subsection \<open>Whitespace, trim and parseInt\<close>

text \<open>
  The white space and line terminators of JavaScript, as far as they are 8-bit characters:
  tab, line feed, vertical tab, form feed, carriage return, space and no-break space.
\<close>

definition is_space :: "char \<Rightarrow> bool" where
  "is_space c = (of_char c \<in> {9, 10, 11, 12, 13, 32, 160 :: nat})"

definition trim :: "string \<Rightarrow> string" where
  "trim s = rev (dropWhile is_space (rev (dropWhile is_space s)))"

definition is_digit :: "char \<Rightarrow> bool" where
  "is_digit c = (48 \<le> (of_char c :: nat) \<and> (of_char c :: nat) \<le> 57)"

definition digits_value :: "string \<Rightarrow> int" where
  "digits_value ds = foldl (\<lambda>a c. 10 * a + (int (of_char c) - 48)) 0 ds"

text \<open>
  \<^verbatim>\<open>parseInt(s, 10)\<close>: leading whitespace is skipped, one sign is read, then the
  longest run of decimal digits; what follows is ignored. No digit gives \<open>NaN\<close>, here
  \<open>None\<close>. The result is kept exact (JavaScript rounds beyond \<open>2^53\<close>).
\<close>

definition parseInt :: "string \<Rightarrow> int option" where
  "parseInt s =
     (let t = dropWhile is_space s;
          neg = (t \<noteq> [] \<and> hd t = CHR ''-'');
          u = (if t \<noteq> [] \<and> (hd t = CHR ''-'' \<or> hd t = CHR ''+'') then tl t else t);
          ds = takeWhile is_digit u
      in if ds = [] then None
         else Some (if neg then - digits_value ds else digits_value ds))"

section \<open>Temporal validators\<close>

text \<open>
  The two regular expressions of the source, as regular expressions.
  \<open>rests r s\<close> lists what is left of \<open>s\<close> after each way \<open>r\<close> matches a prefix of
  it; the expressions are anchored at both ends (\<^verbatim>\<open>^\<close>, \<^verbatim>\<open>$\<close>, no flags), so
  \<^verbatim>\<open>test\<close> succeeds when some way leaves nothing. \<^verbatim>\<open>test\<close> first takes the
  text of its argument, and throws (\<open>None\<close>) when there is none.
\<close>

datatype rx = REps | RDigit | RChr char | RRange char char | RSeq rx rx | RAlt rx rx

fun rests :: "rx \<Rightarrow> string \<Rightarrow> string list" where
  "rests REps s = [s]"
| "rests RDigit s = (case s of [] \<Rightarrow> [] | c # cs \<Rightarrow> if is_digit c then [cs] else [])"
| "rests (RChr a) s = (case s of [] \<Rightarrow> [] | c # cs \<Rightarrow> if c = a then [cs] else [])"
| "rests (RRange lo hi) s =
     (case s of [] \<Rightarrow> []
      | c # cs \<Rightarrow>
          if (of_char lo :: nat) \<le> of_char c \<and> (of_char c :: nat) \<le> of_char hi
          then [cs] else [])"
| "rests (RSeq a b) s = concat (map (rests b) (rests a s))"
| "rests (RAlt a b) s = rests a s @ rests b s"

fun rx_times :: "nat \<Rightarrow> rx \<Rightarrow> rx" where
  "rx_times 0 r = REps"
| "rx_times (Suc n) r = RSeq r (rx_times n r)"

definition rx_test :: "rx \<Rightarrow> jsval \<Rightarrow> bool option" where
  "rx_test r v = map_option (\<lambda>s. [] \<in> set (rests r s)) (to_string v)"

text \<open>\<^verbatim>\<open>/^\d{4}-\d{2}-\d{2}$/\<close>\<close>

definition date_rx :: rx where
  "date_rx =
     RSeq (rx_times 4 RDigit) (RSeq (RChr CHR ''-'') (RSeq (rx_times 2 RDigit)
       (RSeq (RChr CHR ''-'') (rx_times 2 RDigit))))"

text \<open>\<^verbatim>\<open>/^([01]\d|2[0-3]):[0-5]\d$/\<close>\<close>

definition time_rx :: rx where
  "time_rx =
     RSeq (RAlt (RSeq (RRange CHR ''0'' CHR ''1'') RDigit) (RSeq (RChr CHR ''2'') (RRange CHR ''0'' CHR ''3'')))
       (RSeq (RChr CHR '':'') (RSeq (RRange CHR ''0'' CHR ''5'') RDigit))"

definition isValidDate :: "jsval \<Rightarrow> bool option" where
  "isValidDate s = rx_test date_rx s"

definition isValidTime :: "jsval \<Rightarrow> bool option" where
  "isValidTime s = rx_test time_rx s"

section \<open>The store\<close>

text \<open>
  The two tables of the source's \<^verbatim>\<open>CREATE TABLE\<close> statements, each a list of rows.
  \<open>next_appointment_id\<close> is the \<^verbatim>\<open>AUTO_INCREMENT\<close> counter of the appointments'
  \<open>id\<close>. The \<open>created_at\<close> column (the server's clock) is left out.

  The appointments table declares \<^verbatim>\<open>appointment_date DATE\<close> and
  \<^verbatim>\<open>appointment_time TIME\<close>, and the pool is created without \<^verbatim>\<open>dateStrings\<close>. So a
  handler does not read back the text it wrote: for the date it receives a
  \<^verbatim>\<open>Date\<close> object of the day stored, for the time the string \<^verbatim>\<open>HH:MM:SS\<close>. A
  row of the table is kept as a \<^verbatim>\<open>SELECT\<close> gives it to the handlers, with these two
  values. Whether a text of the shape \<^verbatim>\<open>YYYY-MM-DD\<close> names a day of the calendar is
  not looked at (what the server does with \<^verbatim>\<open>2025-13-99\<close> depends on its mode).
\<close>

record patient =
  p_id :: int
  p_name :: string
  p_contact :: "string option"

record appointment =
  a_id :: int
  patient_id :: int
  appointment_date :: jsval
  appointment_time :: jsval
  reason :: string

record db =
  patients :: "patient list"
  appointments :: "appointment list"
  next_appointment_id :: int

text \<open>
  \<^verbatim>\<open>pool.query\<close> resolves with its rows or rejects with an error. The persistence
  layer is either reachable with its tables, or unreachable with the message of the error
  every query is then rejected with.
\<close>

datatype storage = Up db | Down string

text \<open>
  The text by which a date or time parameter stands in a statement. The handlers pass a
  statement only values that a validator accepted or that they read from a row: a string,
  which is written as it is; an array around one string, which the driver writes as that
  string; or the \<^verbatim>\<open>Date\<close> object of a row, which the driver writes as that day at
  midnight and the server compares with a \<^verbatim>\<open>DATE\<close> column, and stores in it, as
  that day.
\<close>

definition sql_text :: "jsval \<Rightarrow> string" where
  "sql_text v =
     (case v of JDate d \<Rightarrow> d | _ \<Rightarrow> (case to_string v of Some t \<Rightarrow> t | None \<Rightarrow> []))"

text \<open>
  The time that the server reads from a text written to a \<^verbatim>\<open>TIME\<close> column or
  compared with it, in the form the column gives it back: to \<^verbatim>\<open>HH:MM\<close> it adds the
  seconds \<^verbatim>\<open>00\<close>; a text \<^verbatim>\<open>HH:MM:SS\<close> read from the column is that time already.
\<close>

definition time_value :: "string \<Rightarrow> string" where
  "time_value t = (if isValidTime (JStr t) = Some True then t @ '':00'' else t)"

text \<open>What the two columns give back after a parameter was written to them.\<close>

definition date_column :: "jsval \<Rightarrow> jsval" where
  "date_column v = JDate (sql_text v)"

definition time_column :: "jsval \<Rightarrow> jsval" where
  "time_column v = JStr (time_value (sql_text v))"

text \<open>
  A \<open>NaN\<close> parameter (the \<open>None\<close> of \<open>parseInt\<close>) is written into the statement as
  the bare word \<open>NaN\<close>, which the server rejects.
\<close>

definition nan_error :: string where
  "nan_error = ''Unknown column NaN in where clause''"

text \<open>\<^verbatim>\<open>SELECT id, name, contact FROM patients ORDER BY id\<close>\<close>

fun select_patients :: "storage \<Rightarrow> string + patient list" where
  "select_patients (Down e) = Inl e"
| "select_patients (Up d) = Inr (sort_key p_id (patients d))"

text \<open>\<^verbatim>\<open>SELECT id AS PatientId, name, contact FROM patients WHERE id = ?\<close>\<close>

fun select_patient_by_id :: "storage \<Rightarrow> int option \<Rightarrow> string + patient list" where
  "select_patient_by_id (Down e) i = Inl e"
| "select_patient_by_id (Up d) None = Inl nan_error"
| "select_patient_by_id (Up d) (Some i) = Inr (filter (\<lambda>p. p_id p = i) (patients d))"

text \<open>\<^verbatim>\<open>SELECT * FROM appointments ORDER BY patient_id\<close>\<close>

fun select_appointments :: "storage \<Rightarrow> string + appointment list" where
  "select_appointments (Down e) = Inl e"
| "select_appointments (Up d) = Inr (sort_key patient_id (appointments d))"

text \<open>
  \<^verbatim>\<open>SELECT ... FROM appointments WHERE id = ?\<close>: the rows of that identity, each with
  the \<^verbatim>\<open>Date\<close> object and the time string of its two columns.
\<close>

fun select_appointment_by_id :: "storage \<Rightarrow> int option \<Rightarrow> string + appointment list" where
  "select_appointment_by_id (Down e) i = Inl e"
| "select_appointment_by_id (Up d) None = Inl nan_error"
| "select_appointment_by_id (Up d) (Some i) = Inr (filter (\<lambda>r. a_id r = i) (appointments d))"

text \<open>
  \<^verbatim>\<open>INSERT INTO appointments (patient_id, appointment_date, appointment_time, reason)
  VALUES (?, ?, ?, ?)\<close>: the new row takes the counter's value as its \<open>id\<close>, which is
  the \<open>insertId\<close> of the result.
\<close>

fun insert_appointment ::
  "storage \<Rightarrow> int \<Rightarrow> jsval \<Rightarrow> jsval \<Rightarrow> string \<Rightarrow> string + (int \<times> storage)" where
  "insert_appointment (Down e) p date time r = Inl e"
| "insert_appointment (Up d) p date time r =
     Inr (next_appointment_id d,
          Up (d\<lparr>appointments := appointments d @
                 [\<lparr>a_id = next_appointment_id d, patient_id = p,
                   appointment_date = date_column date, appointment_time = time_column time,
                   reason = r\<rparr>],
               next_appointment_id := next_appointment_id d + 1\<rparr>))"

text \<open>
  \<^verbatim>\<open>UPDATE appointments SET appointment_date = ?, appointment_time = ?, reason = ?
  WHERE id = ?\<close>
\<close>

fun update_appointment ::
  "storage \<Rightarrow> jsval \<Rightarrow> jsval \<Rightarrow> string \<Rightarrow> int option \<Rightarrow> string + storage" where
  "update_appointment (Down e) date time r i = Inl e"
| "update_appointment (Up d) date time r None = Inl nan_error"
| "update_appointment (Up d) date time r (Some i) =
     Inr (Up (d\<lparr>appointments :=
                  map (\<lambda>row. if a_id row = i
                              then row\<lparr>appointment_date := date_column date,
                                       appointment_time := time_column time, reason := r\<rparr>
                              else row)
                    (appointments d)\<rparr>))"

text \<open>
  \<^verbatim>\<open>DELETE FROM appointments WHERE id = ?\<close>, with the \<open>affectedRows\<close> of the
  result.
\<close>

fun delete_appointment_rows :: "storage \<Rightarrow> int option \<Rightarrow> string + (nat \<times> storage)" where
  "delete_appointment_rows (Down e) i = Inl e"
| "delete_appointment_rows (Up d) None = Inl nan_error"
| "delete_appointment_rows (Up d) (Some i) =
     Inr (length (filter (\<lambda>r. a_id r = i) (appointments d)),
          Up (d\<lparr>appointments := filter (\<lambda>r. a_id r \<noteq> i) (appointments d)\<rparr>))"

subsection \<open>Patient existence gate and conflict resolver\<close>

fun ensurePatientExists :: "storage \<Rightarrow> int \<Rightarrow> string + bool" where
  "ensurePatientExists (Down e) patientId = Inl e"
| "ensurePatientExists (Up d) patientId =
     Inr (length (filter (\<lambda>p. p_id p = patientId) (patients d)) > 0)"

text \<open>
  The server compares the day of the column with the day of the parameter, and the time
  of the column with the time it reads from the parameter.
\<close>

fun isSlotTaken :: "storage \<Rightarrow> int \<Rightarrow> jsval \<Rightarrow> jsval \<Rightarrow> string + bool" where
  "isSlotTaken (Down e) patientId date time = Inl e"
| "isSlotTaken (Up d) patientId date time =
     Inr (length (filter (\<lambda>r. patient_id r = patientId
                              \<and> sql_text (appointment_date r) = sql_text date
                              \<and> time_value (sql_text (appointment_time r)) = time_value (sql_text time))
                    (appointments d)) > 0)"

section \<open>Requests and responses\<close>

text \<open>
  A handler either sends a response (status and JSON body) or, where a rejected query is
  not caught, ends with the error thrown and sends nothing. It returns the storage as it
  leaves it and the lines it wrote to the console. The body of a response is the value
  handed to \<^verbatim>\<open>res.json\<close>; the text that \<^verbatim>\<open>res.json\<close> writes for a \<^verbatim>\<open>Date\<close>
  object inside it (the instant in UTC) depends on the time zone of the process and is not
  modelled.
\<close>

datatype reply = Sent nat jsval | Thrown string

datatype log_entry = Log string jsval | LogError string string

record outcome =
  reply :: reply
  store :: storage
  console :: "log_entry list"

definition respond :: "storage \<Rightarrow> nat \<Rightarrow> jsval \<Rightarrow> outcome" where
  "respond st code body = \<lparr>reply = Sent code body, store = st, console = []\<rparr>"

definition thrown :: "storage \<Rightarrow> string \<Rightarrow> outcome" where
  "thrown st e = \<lparr>reply = Thrown e, store = st, console = []\<rparr>"

definition message :: "string \<Rightarrow> jsval" where
  "message m = JObj [(''message'', JStr m)]"

text \<open>
  The \<^verbatim>\<open>catch\<close> block of the guarded handlers:
  \<^verbatim>\<open>console.error('DB Error:', err);
  res.status(500).json({ message: 'Database error', error: err.message })\<close>
\<close>

definition database_error :: "storage \<Rightarrow> log_entry list \<Rightarrow> string \<Rightarrow> outcome" where
  "database_error st logged e =
     \<lparr>reply = Sent 500 (JObj [(''message'', JStr ''Database error''), (''error'', JStr e)]),
      store = st, console = logged @ [LogError ''DB Error:'' e]\<rparr>"

definition status :: "outcome \<Rightarrow> nat option" where
  "status out = (case reply out of Sent code body \<Rightarrow> Some code | Thrown e \<Rightarrow> None)"

text \<open>A number as JSON writes it: \<open>NaN\<close> becomes \<open>null\<close>.\<close>

fun num_json :: "int option \<Rightarrow> jsval" where
  "num_json None = JNull"
| "num_json (Some n) = JNum n"

fun num_value :: "jsval \<Rightarrow> int" where
  "num_value (JNum n) = n"
| "num_value v = 0"

definition patient_json :: "patient \<Rightarrow> jsval" where
  "patient_json p =
     JObj [(''id'', JNum (p_id p)), (''name'', JStr (p_name p)),
           (''contact'', case p_contact p of None \<Rightarrow> JNull | Some c \<Rightarrow> JStr c)]"

definition patient_by_id_json :: "patient \<Rightarrow> jsval" where
  "patient_by_id_json p =
     JObj [(''PatientId'', JNum (p_id p)), (''name'', JStr (p_name p)),
           (''contact'', case p_contact p of None \<Rightarrow> JNull | Some c \<Rightarrow> JStr c)]"

definition appointment_row_json :: "appointment \<Rightarrow> jsval" where
  "appointment_row_json r =
     JObj [(''id'', JNum (a_id r)), (''patient_id'', JNum (patient_id r)),
           (''appointment_date'', appointment_date r),
           (''appointment_time'', appointment_time r), (''reason'', JStr (reason r))]"

definition appointment_json :: "appointment \<Rightarrow> jsval" where
  "appointment_json r =
     JObj [(''AppointmentId'', JNum (a_id r)), (''PatientId'', JNum (patient_id r)),
           (''AppointmentDate'', appointment_date r),
           (''AppointmentTime'', appointment_time r), (''Reason'', JStr (reason r))]"

section \<open>Handlers\<close>

definition date_message :: string where
  "date_message = ''AppointmentDate must be '' @ [CHR 0x27] @ ''YYYY-MM-DD'' @ [CHR 0x27]"

definition time_message :: string where
  "time_message = ''AppointmentTime must be '' @ [CHR 0x27] @ ''HH:MM'' @ [CHR 0x27] @ '' (24h)''"

definition slot_message :: string where
  "slot_message = ''This time slot is already booked for this patient''"

subsection \<open>Patients\<close>

text \<open>\<^verbatim>\<open>app.get('/patients', ...)\<close>\<close>

definition get_patients :: "storage \<Rightarrow> outcome" where
  "get_patients st =
     (case select_patients st of
        Inl e \<Rightarrow> database_error st [] e
      | Inr rows \<Rightarrow>
          \<lparr>reply = Sent 200 (JArr (map patient_json rows)), store = st,
           console = [Log ''Patients fetched:'' (JArr (map patient_json rows))]\<rparr>)"

text \<open>\<^verbatim>\<open>isNaN(id) || id <= 0\<close>\<close>

fun invalid_id :: "int option \<Rightarrow> bool" where
  "invalid_id None = True"
| "invalid_id (Some n) = (n \<le> 0)"

text \<open>\<^verbatim>\<open>app.get('/patients/:id', ...)\<close>\<close>

definition get_patient :: "storage \<Rightarrow> string \<Rightarrow> outcome" where
  "get_patient st id_param =
     (let id = parseInt id_param
      in if invalid_id id then respond st 400 (message ''Invalid PatientId'')
         else case select_patient_by_id st id of
                Inl e \<Rightarrow> database_error st [] e
              | Inr [] \<Rightarrow> respond st 404 (message ''Patient not found'')
              | Inr (row # rows) \<Rightarrow> respond st 200 (patient_by_id_json row))"

subsection \<open>Writing the patients table\<close>








subsection \<open>Appointments\<close>

text \<open>\<^verbatim>\<open>app.get('/appointments', ...)\<close>\<close>

definition get_appointments :: "storage \<Rightarrow> outcome" where
  "get_appointments st =
     (case select_appointments st of
        Inl e \<Rightarrow> database_error st [] e
      | Inr rows \<Rightarrow>
          \<lparr>reply = Sent 200 (JArr (map appointment_row_json rows)), store = st,
           console = [Log ''Appointments fetched:'' (JArr (map appointment_row_json rows))]\<rparr>)"

text \<open>
  \<^verbatim>\<open>!Number.isInteger(PatientId) || PatientId <= 0\<close>: the comparison is reached only for
  an integral number.
\<close>

fun invalid_patient_id :: "jsval \<Rightarrow> bool" where
  "invalid_patient_id (JNum n) = (n \<le> 0)"
| "invalid_patient_id v = True"

text \<open>\<^verbatim>\<open>!Reason || typeof Reason !== 'string' || !Reason.trim()\<close>\<close>

definition reason_missing :: "jsval \<Rightarrow> bool" where
  "reason_missing Reason =
     (\<not> truthy Reason \<or> \<not> is_string Reason \<or> trim (chars_of Reason) = [])"

text \<open>
  \<^verbatim>\<open>app.post('/appointments', ...)\<close>: nothing in this handler is guarded, neither a
  query nor a validator.
\<close>

definition post_appointments :: "storage \<Rightarrow> jsval \<Rightarrow> outcome" where
  "post_appointments st body =
     (let PatientId = body_field body ''PatientId'';
          AppointmentDate = body_field body ''AppointmentDate'';
          AppointmentTime = body_field body ''AppointmentTime'';
          Reason = body_field body ''Reason''
      in if invalid_patient_id PatientId then respond st 400 (message ''Invalid PatientId'')
         else case isValidDate AppointmentDate of
           None \<Rightarrow> thrown st type_error
         | Some date_ok \<Rightarrow>
         if \<not> date_ok then respond st 400 (message date_message)
         else case isValidTime AppointmentTime of
           None \<Rightarrow> thrown st type_error
         | Some time_ok \<Rightarrow>
         if \<not> time_ok then respond st 400 (message time_message)
         else if reason_missing Reason then respond st 400 (message ''Reason is required'')
         else case ensurePatientExists st (num_value PatientId) of
           Inl e \<Rightarrow> thrown st e
         | Inr found \<Rightarrow>
             if \<not> found then respond st 404 (message ''Patient not found'')
             else case isSlotTaken st (num_value PatientId) AppointmentDate AppointmentTime of
               Inl e \<Rightarrow> thrown st e
             | Inr taken \<Rightarrow>
                 if taken then respond st 409 (message slot_message)
                 else case insert_appointment st (num_value PatientId) AppointmentDate
                             AppointmentTime (trim (chars_of Reason)) of
                   Inl e \<Rightarrow> thrown st e
                 | Inr (insertId, st') \<Rightarrow>
                     respond st' 201
                       (JObj [(''id'', JNum insertId), (''patient_id'', PatientId),
                              (''appointment_date'', AppointmentDate),
                              (''appointment_time'', AppointmentTime),
                              (''reason'', JStr (trim (chars_of Reason))),
                              (''message'', JStr ''Appointment created successfully'')]))"

text \<open>\<^verbatim>\<open>app.get('/appointments/:id', ...)\<close>\<close>

definition get_appointment :: "storage \<Rightarrow> string \<Rightarrow> outcome" where
  "get_appointment st id_param =
     (let id = parseInt id_param
      in case select_appointment_by_id st id of
           Inl e \<Rightarrow> thrown st e
         | Inr [] \<Rightarrow> respond st 404 (message ''Appointment not found'')
         | Inr (row # rows) \<Rightarrow> respond st 200 (appointment_json row))"

text \<open>
  The test \<^verbatim>\<open>x && !validate(x)\<close> of the update handler: the validator is called for a
  truthy value only.
\<close>

definition submitted_invalid :: "(jsval \<Rightarrow> bool option) \<Rightarrow> jsval \<Rightarrow> bool option" where
  "submitted_invalid validate x = (if truthy x then map_option Not (validate x) else Some False)"

text \<open>
  \<^verbatim>\<open>app.put('/appointments/:id', ...)\<close>: nothing in this handler is guarded.
  \<open>appt\<close> is the row as it was read, so \<open>appt.appointment_date\<close> is a
  \<^verbatim>\<open>Date\<close> object and \<open>appt.appointment_time\<close> a string with seconds. The merged
  value is \<^verbatim>\<open>===\<close> to the row's when the field was not submitted, for it is then the
  row's value itself; a value of the body is \<^verbatim>\<open>===\<close> to the row's only if both are
  the same string. On rows as the statements write them the equality of values below is
  this test: no value that passed the date validator is a \<^verbatim>\<open>Date\<close> object.
\<close>

definition put_appointment :: "storage \<Rightarrow> string \<Rightarrow> jsval \<Rightarrow> outcome" where
  "put_appointment st id_param body =
     (let id = parseInt id_param
      in case select_appointment_by_id st id of
           Inl e \<Rightarrow> thrown st e
         | Inr [] \<Rightarrow> respond st 404 (message ''Appointment not found'')
         | Inr (appt # rows) \<Rightarrow>
            (let AppointmentDate = body_field body ''AppointmentDate'';
                 AppointmentTime = body_field body ''AppointmentTime'';
                 Reason = body_field body ''Reason''
             in case submitted_invalid isValidDate AppointmentDate of
                  None \<Rightarrow> thrown st type_error
                | Some bad_date \<Rightarrow>
                if bad_date then respond st 400 (message date_message)
                else case submitted_invalid isValidTime AppointmentTime of
                  None \<Rightarrow> thrown st type_error
                | Some bad_time \<Rightarrow>
                if bad_time then respond st 400 (message time_message)
                else
                 (let newDate = or_else AppointmentDate (appointment_date appt);
                      newTime = or_else AppointmentTime (appointment_time appt);
                      newReason = (if is_string Reason \<and> trim (chars_of Reason) \<noteq> []
                                   then trim (chars_of Reason) else reason appt)
                  in case isSlotTaken st (patient_id appt) newDate newTime of
                       Inl e \<Rightarrow> thrown st e
                     | Inr taken \<Rightarrow>
                         if taken \<and> \<not> (newDate = appointment_date appt
                                        \<and> newTime = appointment_time appt)
                         then respond st 409 (message slot_message)
                         else case update_appointment st newDate newTime newReason id of
                           Inl e \<Rightarrow> thrown st e
                         | Inr st' \<Rightarrow>
                             respond st' 200
                               (JObj [(''AppointmentId'', num_json id),
                                      (''PatientId'', JNum (patient_id appt)),
                                      (''AppointmentDate'', newDate),
                                      (''AppointmentTime'', newTime),
                                      (''Reason'', JStr newReason),
                                      (''Message'', JStr ''Appointment updated successfully'')]))))"

text \<open>\<^verbatim>\<open>app.delete('/appointments/:id', ...)\<close>\<close>

definition delete_appointment :: "storage \<Rightarrow> string \<Rightarrow> outcome" where
  "delete_appointment st id_param =
     (let id = parseInt id_param
      in case delete_appointment_rows st id of
           Inl e \<Rightarrow> thrown st e
         | Inr (affectedRows, st') \<Rightarrow>
             if affectedRows = 0 then respond st' 404 (message ''Appointment not found'')
             else respond st' 200
                    (JObj [(''AppointmentId'', num_json id),
                           (''Message'', JStr ''Appointment deleted successfully'')]))"

section \<open>Sequences of requests\<close>

text \<open>The requests that read the two tables or write the appointments table.\<close>

datatype request =
    GetPatients
  | GetPatient string
  | GetAppointments
  | PostAppointments jsval
  | GetAppointment string
  | PutAppointment string jsval
  | DeleteAppointment string

fun handle :: "storage \<Rightarrow> request \<Rightarrow> outcome" where
  "handle st GetPatients = get_patients st"
| "handle st (GetPatient i) = get_patient st i"
| "handle st GetAppointments = get_appointments st"
| "handle st (PostAppointments body) = post_appointments st body"
| "handle st (GetAppointment i) = get_appointment st i"
| "handle st (PutAppointment i body) = put_appointment st i body"
| "handle st (DeleteAppointment i) = delete_appointment st i"

text \<open>The storage before the first request and after each one.\<close>

fun run :: "storage \<Rightarrow> request list \<Rightarrow> storage list" where
  "run st [] = [st]"
| "run st (r # rs) = st # run (store (handle st r)) rs"

text \<open>
  The tables as the start-up block of the source leaves an empty database: both tables
  created and one seed patient.
\<close>

definition startup_db :: db where
  "startup_db =
     \<lparr>patients = [\<lparr>p_id = 1, p_name = ''John Doe'', p_contact = Some ''123456789''\<rparr>],
      appointments = [], next_appointment_id = 1\<rparr>"

section \<open>Properties of the store\<close>

text \<open>The slot of a row: its patient, and the day and the time that its columns hold.\<close>

definition slot_key :: "appointment \<Rightarrow> int \<times> string \<times> string" where
  "slot_key r =
     (patient_id r, sql_text (appointment_date r), time_value (sql_text (appointment_time r)))"

text \<open>Slot exclusivity: no two rows of the table have the same slot.\<close>

definition slot_exclusive :: "db \<Rightarrow> bool" where
  "slot_exclusive d = distinct (map slot_key (appointments d))"

text \<open>
  What the \<^verbatim>\<open>AUTO_INCREMENT PRIMARY KEY\<close> gives: the identities of the rows differ and
  lie below the counter.
\<close>

definition ids_ok :: "db \<Rightarrow> bool" where
  "ids_ok d =
     (distinct (map a_id (appointments d)) \<and>
      list_all (\<lambda>r. a_id r < next_appointment_id d) (appointments d))"

definition consistent :: "db \<Rightarrow> bool" where
  "consistent d = (slot_exclusive d \<and> ids_ok d)"



text \<open>
  The rows are as the statements write them: the date a \<^verbatim>\<open>Date\<close> object, the time a
  string that is the time of a column.
\<close>

definition read_back :: "db \<Rightarrow> bool" where
  "read_back d =
     list_all (\<lambda>r. appointment_date r = date_column (appointment_date r) \<and>
                   appointment_time r = time_column (appointment_time r))
       (appointments d)"

fun read_back_storage :: "storage \<Rightarrow> bool" where
  "read_back_storage (Up d) = read_back d"
| "read_back_storage (Down e) = True"

text \<open>
  The conflict test as the specification words it for an update: the slot is looked up
  among the rows of the patient with the appointment's own identity left out.
\<close>

definition spec_slotTaken_excluding :: "db \<Rightarrow> int \<Rightarrow> int \<Rightarrow> string \<Rightarrow> string \<Rightarrow> bool" where
  "spec_slotTaken_excluding d own patientId date time =
     (filter (\<lambda>r. patient_id r = patientId \<and> sql_text (appointment_date r) = date
                  \<and> time_value (sql_text (appointment_time r)) = time_value time)
        (filter (\<lambda>r. a_id r \<noteq> own) (appointments d)) \<noteq> [])"

section \<open>The parts of an update\<close>

text \<open>
  Names for the expressions of the update handler, as they stand in its body: the two
  validation tests, the merged fields and the body of the success response.
\<close>

definition merged_date :: "jsval \<Rightarrow> appointment \<Rightarrow> jsval" where
  "merged_date body appt = or_else (body_field body ''AppointmentDate'') (appointment_date appt)"

definition merged_time :: "jsval \<Rightarrow> appointment \<Rightarrow> jsval" where
  "merged_time body appt = or_else (body_field body ''AppointmentTime'') (appointment_time appt)"

definition merged_reason :: "jsval \<Rightarrow> appointment \<Rightarrow> string" where
  "merged_reason body appt =
     (if is_string (body_field body ''Reason'') \<and> trim (chars_of (body_field body ''Reason'')) \<noteq> []
      then trim (chars_of (body_field body ''Reason'')) else reason appt)"

definition bad_date_submitted :: "jsval \<Rightarrow> bool option" where
  "bad_date_submitted body = submitted_invalid isValidDate (body_field body ''AppointmentDate'')"

definition bad_time_submitted :: "jsval \<Rightarrow> bool option" where
  "bad_time_submitted body = submitted_invalid isValidTime (body_field body ''AppointmentTime'')"

definition updated_body :: "int option \<Rightarrow> appointment \<Rightarrow> jsval \<Rightarrow> jsval" where
  "updated_body ident appt body =
     JObj [(''AppointmentId'', num_json ident), (''PatientId'', JNum (patient_id appt)),
           (''AppointmentDate'', merged_date body appt),
           (''AppointmentTime'', merged_time body appt),
           (''Reason'', JStr (merged_reason body appt)),
           (''Message'', JStr ''Appointment updated successfully'')]"

text \<open>The four syntactic checks of a creation, all passed.\<close>

definition create_fields_valid :: "jsval \<Rightarrow> bool" where
  "create_fields_valid body =
     (\<not> invalid_patient_id (body_field body ''PatientId'') \<and>
      isValidDate (body_field body ''AppointmentDate'') = Some True \<and>
      isValidTime (body_field body ''AppointmentTime'') = Some True \<and>
      \<not> reason_missing (body_field body ''Reason''))"

text \<open>The request body with one property taken away.\<close>

fun without_field :: "jsval \<Rightarrow> string \<Rightarrow> jsval" where
  "without_field (JObj kvs) k = JObj (filter (\<lambda>kv. fst kv \<noteq> k) kvs)"
| "without_field v k = v"

section \<open>Example requests and stores\<close>

text \<open>
  Two appointments of patient 1 as they are read from the table after they were created
  with the times \<^verbatim>\<open>14:30\<close> and \<^verbatim>\<open>15:00\<close>.
\<close>

definition first_row :: appointment where
  "first_row = \<lparr>a_id = 1, patient_id = 1, appointment_date = JDate ''2025-08-20'',
                 appointment_time = JStr ''14:30:00'', reason = ''checkup''\<rparr>"


definition booked_db :: db where
  "booked_db = startup_db\<lparr>appointments := [first_row], next_appointment_id := 2\<rparr>"


definition checkup_body :: jsval where
  "checkup_body =
     JObj [(''PatientId'', JNum 1), (''AppointmentDate'', JStr ''2025-08-20''),
           (''AppointmentTime'', JStr ''14:30''), (''Reason'', JStr ''checkup'')]"

definition move_body :: jsval where
  "move_body = JObj [(''AppointmentTime'', JStr ''14:30'')]"

definition resubmit_body :: jsval where
  "resubmit_body =
     JObj [(''AppointmentDate'', JStr ''2025-08-20''), (''AppointmentTime'', JStr ''14:30'')]"

definition reason_body :: jsval where
  "reason_body = JObj [(''Reason'', JStr ''second opinion'')]"

definition array_date_body :: jsval where
  "array_date_body = JObj [(''AppointmentDate'', JArr [JStr ''2025-08-20''])]"





definition empty_date_body :: jsval where
  "empty_date_body = JObj [(''AppointmentDate'', JStr ''''), (''AppointmentTime'', JStr ''15:00'')]"


definition object_date_body :: jsval where
  "object_date_body =
     JObj [(''PatientId'', JNum 1), (''AppointmentDate'', JObj [(''toString'', JNum 1)]),
           (''AppointmentTime'', JStr ''14:30''), (''Reason'', JStr ''checkup'')]"

definition null_time_body :: jsval where
  "null_time_body = JObj [(''AppointmentTime'', JNull), (''Reason'', JStr ''moved'')]"



section \<open>Lemmas on the validators\<close>

lemma sql_text_string [simp]: "sql_text (JStr s) = s"
  by (simp add: sql_text_def)

lemma sql_text_date [simp]: "sql_text (JDate d) = d"
  by (simp add: sql_text_def)

text \<open>What each form of expression leaves of a string.\<close>

lemma rests_digit: "t \<in> set (rests RDigit s) \<longleftrightarrow> (\<exists>c. s = c # t \<and> is_digit c)"
  by (cases s) auto

lemma rests_chr: "t \<in> set (rests (RChr a) s) \<longleftrightarrow> s = a # t"
  by (cases s) auto

lemma rests_range:
  "t \<in> set (rests (RRange lo hi) s) \<longleftrightarrow>
     (\<exists>c. s = c # t \<and> (of_char lo :: nat) \<le> of_char c \<and> (of_char c :: nat) \<le> of_char hi)"
  by (cases s) auto

lemma rests_seq: "t \<in> set (rests (RSeq a b) s) \<longleftrightarrow> (\<exists>u. u \<in> set (rests a s) \<and> t \<in> set (rests b u))"
  by auto

lemma rests_alt: "t \<in> set (rests (RAlt a b) s) \<longleftrightarrow> t \<in> set (rests a s) \<or> t \<in> set (rests b s)"
  by simp

lemma rests_eps: "t \<in> set (rests REps s) \<longleftrightarrow> t = s"
  by auto

lemma date_shape:
  "isValidDate (JStr s) = Some
    (\<exists>a b c d e f g h. s = [a, b, c, d, CHR ''-'', e, f, CHR ''-'', g, h] \<and>
       is_digit a \<and> is_digit b \<and> is_digit c \<and> is_digit d \<and> is_digit e \<and> is_digit f \<and>
       is_digit g \<and> is_digit h)"
  unfolding isValidDate_def rx_test_def date_rx_def to_string.simps option.map option.inject
  by (simp only: rests_seq rests_digit rests_chr rests_eps numeral_eq_Suc pred_numeral_simps BitM.simps rx_times.simps Num.pred_numeral_inc) auto

lemma time_shape:
  "isValidTime (JStr s) = Some
    (\<exists>a b c d. s = [a, b, CHR '':'', c, d] \<and>
       ((48 \<le> (of_char a :: nat) \<and> (of_char a :: nat) \<le> 49 \<and> is_digit b)
        \<or> (a = CHR ''2'' \<and> 48 \<le> (of_char b :: nat) \<and> (of_char b :: nat) \<le> 51)) \<and>
       48 \<le> (of_char c :: nat) \<and> (of_char c :: nat) \<le> 53 \<and> is_digit d)"
  unfolding isValidTime_def rx_test_def time_rx_def to_string.simps option.map option.inject
  by (simp only: rests_seq rests_digit rests_chr rests_eps rests_alt rests_range) auto

text \<open>
  On a value that is no array and no object the validators return; on \<open>undefined\<close>,
  \<open>null\<close>, the booleans, a non-integral number, the empty object, the empty array and
  a \<^verbatim>\<open>Date\<close> object they return false.
\<close>

lemma validators_return_on_primitives:
  "isValidDate (JStr s) \<noteq> None" "isValidDate (JNum n) \<noteq> None" "isValidDate JFrac \<noteq> None"
  "isValidDate (JBool b) \<noteq> None" "isValidDate JNull \<noteq> None" "isValidDate JUndefined \<noteq> None"
  "isValidTime (JStr s) \<noteq> None" "isValidTime (JNum n) \<noteq> None" "isValidTime JFrac \<noteq> None"
  "isValidTime (JBool b) \<noteq> None" "isValidTime JNull \<noteq> None" "isValidTime JUndefined \<noteq> None"
  by (simp_all add: isValidDate_def isValidTime_def rx_test_def)

lemma validators_refuse_plain_values:
  "isValidDate JUndefined = Some False" "isValidDate JNull = Some False"
  "isValidDate (JBool True) = Some False" "isValidDate (JBool False) = Some False"
  "isValidDate JFrac = Some False" "isValidDate (JObj []) = Some False"
  "isValidDate (JArr []) = Some False"
  "isValidTime JUndefined = Some False" "isValidTime JNull = Some False"
  "isValidTime (JBool True) = Some False" "isValidTime (JBool False) = Some False"
  "isValidTime JFrac = Some False" "isValidTime (JObj []) = Some False"
  "isValidTime (JArr []) = Some False"
  by code_simp+

lemma validators_refuse_date_objects:
  "isValidDate (JDate d) = Some False" "isValidTime (JDate d) = Some False"
proof -
  have "isValidDate (JStr ''Wed Aug 20 2025 00:00:00 GMT+0000 (Coordinated Universal Time)'') = Some False"
    by code_simp
  then show "isValidDate (JDate d) = Some False"
    by (simp add: isValidDate_def rx_test_def)
  have "isValidTime (JStr ''Wed Aug 20 2025 00:00:00 GMT+0000 (Coordinated Universal Time)'') = Some False"
    by code_simp
  then show "isValidTime (JDate d) = Some False"
    by (simp add: isValidTime_def rx_test_def)
qed

text \<open>Every value that passed a validator has a text, and it is the text that passed.\<close>

lemma validated_has_text:
  "isValidDate v = Some b \<Longrightarrow> to_string v \<noteq> None"
  "isValidTime v = Some b \<Longrightarrow> to_string v \<noteq> None"
  by (auto simp: isValidDate_def isValidTime_def rx_test_def)

lemma isValidTime_text:
  assumes "isValidTime v = Some True"
  shows "isValidTime (JStr (sql_text v)) = Some True"
proof (cases "\<exists>d. v = JDate d")
  case True
  with assms validators_refuse_date_objects(2) show ?thesis by auto
next
  case False
  with assms show ?thesis
    by (cases v) (auto simp: isValidTime_def rx_test_def sql_text_def)
qed

lemma isValidDate_text:
  assumes "isValidDate v = Some True"
  shows "isValidDate (JStr (sql_text v)) = Some True"
proof (cases "\<exists>d. v = JDate d")
  case True
  with assms validators_refuse_date_objects(1) show ?thesis by auto
next
  case False
  with assms show ?thesis
    by (cases v) (auto simp: isValidDate_def rx_test_def sql_text_def)
qed

subsection \<open>The time of a column\<close>

lemma valid_time_length: "isValidTime (JStr s) = Some True \<Longrightarrow> length s = 5"
  by (auto simp: time_shape)

text \<open>The time of a column has seconds: it is no text that the validator accepts.\<close>

lemma time_value_not_valid: "isValidTime (JStr (time_value t)) \<noteq> Some True"
proof (cases "isValidTime (JStr t) = Some True")
  case True
  then have "length t = 5" by (rule valid_time_length)
  then have "length (t @ '':00'') \<noteq> 5" by simp
  then have "isValidTime (JStr (t @ '':00'')) \<noteq> Some True"
    using valid_time_length by blast
  with True show ?thesis by (simp add: time_value_def)
next
  case False
  then show ?thesis by (simp add: time_value_def)
qed

lemma time_value_idem [simp]: "time_value (time_value t) = time_value t"
  by (subst time_value_def) (simp add: time_value_not_valid)

text \<open>A time that passed the validator is written with seconds, and so it is read back.\<close>

lemma time_column_validated:
  "isValidTime v = Some True \<Longrightarrow> time_column v = JStr (sql_text v @ '':00'')"
  by (simp add: time_column_def time_value_def isValidTime_text)


section \<open>The handlers keep the store consistent\<close>


text \<open>What a creation does to the storage: nothing, or one checked insertion.\<close>

lemma post_store:
  "store (post_appointments st body) = st \<or>
   (\<exists>i st'. isValidDate (body_field body ''AppointmentDate'') = Some True \<and>
      isValidTime (body_field body ''AppointmentTime'') = Some True \<and>
      isSlotTaken st (num_value (body_field body ''PatientId''))
        (body_field body ''AppointmentDate'') (body_field body ''AppointmentTime'') = Inr False \<and>
      insert_appointment st (num_value (body_field body ''PatientId''))
        (body_field body ''AppointmentDate'') (body_field body ''AppointmentTime'')
        (trim (chars_of (body_field body ''Reason''))) = Inr (i, st') \<and>
      store (post_appointments st body) = st')"
  by (auto simp add: post_appointments_def Let_def respond_def thrown_def
      simp del: insert_appointment.simps isSlotTaken.simps ensurePatientExists.simps
      split: sum.splits option.splits)



lemma first_row_found:
  assumes "filter (\<lambda>r. a_id r = i) rows = appt # rest"
  shows "appt \<in> set rows \<and> a_id appt = i"
proof -
  have "appt \<in> set (filter (\<lambda>r. a_id r = i) rows)" by (simp add: assms)
  then show ?thesis by simp
qed




subsection \<open>The branches of the update handler\<close>

lemma put_not_found:
  assumes "select_appointment_by_id st (parseInt i) = Inr []"
  shows "put_appointment st i body = respond st 404 (message ''Appointment not found'')"
  using assms by (simp add: put_appointment_def)

lemma put_rejected:
  assumes "select_appointment_by_id st (parseInt i) = Inl e"
  shows "put_appointment st i body = thrown st e"
  using assms by (simp add: put_appointment_def)

lemma put_date_throws:
  assumes "select_appointment_by_id st (parseInt i) = Inr (appt # rest)"
    and "bad_date_submitted body = None"
  shows "put_appointment st i body = thrown st type_error"
  using assms by (simp add: put_appointment_def bad_date_submitted_def)

lemma put_bad_date:
  assumes "select_appointment_by_id st (parseInt i) = Inr (appt # rest)"
    and "bad_date_submitted body = Some True"
  shows "put_appointment st i body = respond st 400 (message date_message)"
  using assms by (simp add: put_appointment_def bad_date_submitted_def)

lemma put_time_throws:
  assumes "select_appointment_by_id st (parseInt i) = Inr (appt # rest)"
    and "bad_date_submitted body = Some False" and "bad_time_submitted body = None"
  shows "put_appointment st i body = thrown st type_error"
  using assms by (simp add: put_appointment_def bad_date_submitted_def bad_time_submitted_def)

lemma put_bad_time:
  assumes "select_appointment_by_id st (parseInt i) = Inr (appt # rest)"
    and "bad_date_submitted body = Some False" and "bad_time_submitted body = Some True"
  shows "put_appointment st i body = respond st 400 (message time_message)"
  using assms by (simp add: put_appointment_def bad_date_submitted_def bad_time_submitted_def)

lemma put_checked:
  assumes "select_appointment_by_id st (parseInt i) = Inr (appt # rest)"
    and "bad_date_submitted body = Some False" and "bad_time_submitted body = Some False"
  shows "put_appointment st i body =
    (case isSlotTaken st (patient_id appt) (merged_date body appt) (merged_time body appt) of
       Inl e \<Rightarrow> thrown st e
     | Inr taken \<Rightarrow>
        if taken \<and> \<not> (merged_date body appt = appointment_date appt
                         \<and> merged_time body appt = appointment_time appt)
        then respond st 409 (message slot_message)
        else case update_appointment st (merged_date body appt) (merged_time body appt)
                    (merged_reason body appt) (parseInt i) of
               Inl e \<Rightarrow> thrown st e
             | Inr st' \<Rightarrow> respond st' 200 (updated_body (parseInt i) appt body))"
  unfolding put_appointment_def Let_def assms(1)
    assms(2)[unfolded bad_date_submitted_def] assms(3)[unfolded bad_time_submitted_def]
    merged_date_def merged_time_def merged_reason_def updated_body_def
  by simp

text \<open>The two validation tests of an update come out in one of five ways.\<close>

lemma put_validation_cases:
  obtains (date_throws) "bad_date_submitted body = None"
  | (bad_date) "bad_date_submitted body = Some True"
  | (time_throws) "bad_date_submitted body = Some False" "bad_time_submitted body = None"
  | (bad_time) "bad_date_submitted body = Some False" "bad_time_submitted body = Some True"
  | (checked) "bad_date_submitted body = Some False" "bad_time_submitted body = Some False"
  by (cases "bad_date_submitted body"; cases "bad_time_submitted body") auto

text \<open>What an update does to the storage: nothing, or one checked rewriting of a row.\<close>

lemma put_store:
  "store (put_appointment (Up d) i body) = Up d \<or>
   (\<exists>n appt rest st'.
      parseInt i = Some n \<and> select_appointment_by_id (Up d) (Some n) = Inr (appt # rest) \<and>
      bad_date_submitted body = Some False \<and> bad_time_submitted body = Some False \<and>
      (isSlotTaken (Up d) (patient_id appt) (merged_date body appt) (merged_time body appt) = Inr False
        \<or> (merged_date body appt = appointment_date appt
            \<and> merged_time body appt = appointment_time appt)) \<and>
      update_appointment (Up d) (merged_date body appt) (merged_time body appt)
        (merged_reason body appt) (Some n) = Inr st' \<and>
      store (put_appointment (Up d) i body) = st')"
proof (cases "select_appointment_by_id (Up d) (parseInt i)")
  case (Inl e)
  then show ?thesis by (simp add: put_rejected thrown_def)
next
  case (Inr rows)
  show ?thesis
  proof (cases rows)
    case Nil
    with Inr show ?thesis by (simp add: put_not_found respond_def)
  next
    case (Cons appt rest)
    with Inr have found: "select_appointment_by_id (Up d) (parseInt i) = Inr (appt # rest)" by simp
    then obtain n where n: "parseInt i = Some n" by (cases "parseInt i") simp_all
    show ?thesis
    proof (cases body rule: put_validation_cases)
      case date_throws
      with found show ?thesis by (simp add: put_date_throws thrown_def)
    next
      case bad_date
      with found show ?thesis by (simp add: put_bad_date respond_def)
    next
      case time_throws
      with found show ?thesis by (simp add: put_time_throws thrown_def)
    next
      case bad_time
      with found show ?thesis by (simp add: put_bad_time respond_def)
    next
      case checked
      let ?nd = "merged_date body appt" and ?nt = "merged_time body appt"
      obtain taken where tk: "isSlotTaken (Up d) (patient_id appt) ?nd ?nt = Inr taken" by simp
      note pc = put_checked[OF found checked, unfolded tk sum.case]
      show ?thesis
      proof (cases "taken \<and> \<not> (?nd = appointment_date appt \<and> ?nt = appointment_time appt)")
        case True
        then show ?thesis by (simp add: pc respond_def)
      next
        case False
        then have free: "isSlotTaken (Up d) (patient_id appt) ?nd ?nt = Inr False
             \<or> (?nd = appointment_date appt \<and> ?nt = appointment_time appt)"
          using tk by auto
        obtain st' where u: "update_appointment (Up d) ?nd ?nt (merged_reason body appt) (Some n) = Inr st'"
          by simp
        have "store (put_appointment (Up d) i body) = st'"
          using False u by (auto simp add: pc n respond_def simp del: update_appointment.simps)
        with found[unfolded n] n checked free u show ?thesis by blast
      qed
    qed
  qed
qed


subsection \<open>Every request\<close>

lemma column_fixed [simp]:
  "date_column (date_column v) = date_column v"
  "time_column (time_column v) = time_column v"
  by (simp_all add: date_column_def time_column_def)

lemma post_read_back:
  assumes "read_back d"
  shows "read_back_storage (store (post_appointments (Up d) body))"
  using post_store[of "Up d" body] assms by (auto simp: read_back_def)

lemma put_read_back:
  assumes "read_back d"
  shows "read_back_storage (store (put_appointment (Up d) i body))"
  using put_store[of d i body] assms by (auto simp: read_back_def list_all_iff)

lemma delete_read_back:
  assumes "read_back d"
  shows "read_back_storage (store (delete_appointment (Up d) i))"
  using assms
  by (cases "parseInt i")
    (auto simp: delete_appointment_def Let_def respond_def thrown_def read_back_def list_all_iff)

lemma reads_keep_store:
  "store (get_patients st) = st" "store (get_patient st i) = st"
  "store (get_appointments st) = st" "store (get_appointment st i) = st"
  by (auto simp: get_patients_def get_patient_def get_appointments_def get_appointment_def
      database_error_def respond_def thrown_def Let_def split: sum.splits list.splits)

lemma down_stays:
  "store (handle (Down e) r) = Down e"
  by (cases r) (auto simp: reads_keep_store post_appointments_def put_appointment_def
      delete_appointment_def thrown_def respond_def Let_def split: option.splits)



lemma handle_read_back:
  assumes "read_back_storage st"
  shows "read_back_storage (store (handle st r))"
proof (cases st)
  case (Up d)
  with assms show ?thesis
    by (cases r) (simp_all add: reads_keep_store post_read_back put_read_back delete_read_back)
next
  case (Down e)
  then show ?thesis by (simp add: down_stays)
qed

text \<open>Every store that the handlers build from the start-up store has such rows.\<close>

lemma run_read_back:
  "read_back_storage st \<Longrightarrow> list_all read_back_storage (run st rs)"
  by (induction rs arbitrary: st) (simp_all add: handle_read_back)

lemma startup_read_back: "read_back startup_db"
  by (simp add: read_back_def startup_db_def)

section \<open>Lemmas on creation, conflicts and identities\<close>

lemma post_checked:
  assumes "create_fields_valid body"
  shows "post_appointments st body =
     (case ensurePatientExists st (num_value (body_field body ''PatientId'')) of
        Inl e \<Rightarrow> thrown st e
      | Inr found \<Rightarrow>
          if \<not> found then respond st 404 (message ''Patient not found'')
          else case isSlotTaken st (num_value (body_field body ''PatientId''))
                      (body_field body ''AppointmentDate'') (body_field body ''AppointmentTime'') of
            Inl e \<Rightarrow> thrown st e
          | Inr taken \<Rightarrow>
              if taken then respond st 409 (message slot_message)
              else case insert_appointment st (num_value (body_field body ''PatientId''))
                          (body_field body ''AppointmentDate'') (body_field body ''AppointmentTime'')
                          (trim (chars_of (body_field body ''Reason''))) of
                Inl e \<Rightarrow> thrown st e
              | Inr (insertId, st') \<Rightarrow>
                  respond st' 201
                    (JObj [(''id'', JNum insertId), (''patient_id'', body_field body ''PatientId''),
                           (''appointment_date'', body_field body ''AppointmentDate''),
                           (''appointment_time'', body_field body ''AppointmentTime''),
                           (''reason'', JStr (trim (chars_of (body_field body ''Reason'')))),
                           (''message'', JStr ''Appointment created successfully'')]))"
  using assms unfolding post_appointments_def Let_def create_fields_valid_def
  by simp

text \<open>A creation that sends 404, 409 or 201 has passed the four syntactic checks.\<close>

lemma post_answers_after_checks:
  assumes "status (post_appointments st body) \<in> {Some 404, Some 409, Some 201}"
  shows "create_fields_valid body"
  using assms
  by (auto simp: post_appointments_def Let_def create_fields_valid_def status_def respond_def
      thrown_def split: option.splits if_splits)


text \<open>
  The checks of a creation in their order: each answer is sent only when every earlier
  check has passed. A date the validator refuses is answered 400 whatever the other fields
  and the storage are; whenever the date is not accepted the answer is neither 404 nor
  409 and the storage is left as it was.
\<close>

lemma create_checks_in_order:
  "(invalid_patient_id (body_field body ''PatientId'') \<longrightarrow>
      post_appointments st body = respond st 400 (message ''Invalid PatientId'')) \<and>
   (\<not> invalid_patient_id (body_field body ''PatientId'') \<and>
    isValidDate (body_field body ''AppointmentDate'') = Some False \<longrightarrow>
      post_appointments st body = respond st 400 (message date_message)) \<and>
   (\<not> invalid_patient_id (body_field body ''PatientId'') \<and>
    isValidDate (body_field body ''AppointmentDate'') = Some True \<and>
    isValidTime (body_field body ''AppointmentTime'') = Some False \<longrightarrow>
      post_appointments st body = respond st 400 (message time_message)) \<and>
   (\<not> invalid_patient_id (body_field body ''PatientId'') \<and>
    isValidDate (body_field body ''AppointmentDate'') = Some True \<and>
    isValidTime (body_field body ''AppointmentTime'') = Some True \<and>
    reason_missing (body_field body ''Reason'') \<longrightarrow>
      post_appointments st body = respond st 400 (message ''Reason is required'')) \<and>
   (create_fields_valid body \<and>
    ensurePatientExists st (num_value (body_field body ''PatientId'')) = Inr False \<longrightarrow>
      post_appointments st body = respond st 404 (message ''Patient not found'')) \<and>
   (create_fields_valid body \<and>
    ensurePatientExists st (num_value (body_field body ''PatientId'')) = Inr True \<and>
    isSlotTaken st (num_value (body_field body ''PatientId''))
      (body_field body ''AppointmentDate'') (body_field body ''AppointmentTime'') = Inr True \<longrightarrow>
      post_appointments st body = respond st 409 (message slot_message)) \<and>
   (isValidDate (body_field body ''AppointmentDate'') = Some False \<longrightarrow>
      status (post_appointments st body) = Some 400) \<and>
   (isValidDate (body_field body ''AppointmentDate'') \<noteq> Some True \<longrightarrow>
      status (post_appointments st body) \<noteq> Some 404 \<and>
      status (post_appointments st body) \<noteq> Some 409 \<and>
      store (post_appointments st body) = st)"
proof (intro conjI impI)
  assume "create_fields_valid body \<and>
    ensurePatientExists st (num_value (body_field body ''PatientId'')) = Inr False"
  then show "post_appointments st body = respond st 404 (message ''Patient not found'')"
    by (simp add: post_checked del: ensurePatientExists.simps)
next
  assume "create_fields_valid body \<and>
    ensurePatientExists st (num_value (body_field body ''PatientId'')) = Inr True \<and>
    isSlotTaken st (num_value (body_field body ''PatientId''))
      (body_field body ''AppointmentDate'') (body_field body ''AppointmentTime'') = Inr True"
  then show "post_appointments st body = respond st 409 (message slot_message)"
    by (simp add: post_checked del: ensurePatientExists.simps isSlotTaken.simps)
next
  assume n: "isValidDate (body_field body ''AppointmentDate'') \<noteq> Some True"
  then have nv: "\<not> create_fields_valid body" by (simp add: create_fields_valid_def)
  with post_answers_after_checks[of st body]
  show "status (post_appointments st body) \<noteq> Some 404"
    and "status (post_appointments st body) \<noteq> Some 409"
    by auto
  from n show "store (post_appointments st body) = st"
    by (auto simp: post_appointments_def Let_def respond_def thrown_def split: option.splits)
qed (auto simp add: post_appointments_def Let_def respond_def status_def)


text \<open>
  The other direction fails. A date that passed the validator is no \<^verbatim>\<open>Date\<close>
  object, so it is never \<^verbatim>\<open>===\<close> to the date of a row read from the table: with a
  submitted date the handler answers 409 whenever the merged slot is taken, be it by the
  appointment itself.
\<close>

lemma submitted_date_is_not_the_rows:
  assumes "appointment_date appt = JDate x"
    and "truthy (body_field body ''AppointmentDate'')"
    and "bad_date_submitted body = Some False"
  shows "merged_date body appt \<noteq> appointment_date appt"
  using assms validators_refuse_date_objects(1)[of x]
  by (auto simp: merged_date_def or_else_def bad_date_submitted_def submitted_invalid_def)

lemma submitted_time_is_not_the_rows:
  assumes "appointment_time appt = time_column t"
    and "truthy (body_field body ''AppointmentTime'')"
    and "bad_time_submitted body = Some False"
  shows "merged_time body appt \<noteq> appointment_time appt"
proof
  assume "merged_time body appt = appointment_time appt"
  with assms have "isValidTime (JStr (time_value (sql_text t))) = Some True"
    by (auto simp: merged_time_def or_else_def bad_time_submitted_def submitted_invalid_def
        time_column_def)
  with time_value_not_valid show False by blast
qed

lemma resubmitted_date_is_refused:
  assumes found: "select_appointment_by_id (Up d) (parseInt i) = Inr (appt # rest)"
    and row: "appointment_date appt = JDate x"
    and sub: "truthy (body_field body ''AppointmentDate'')"
    and bd: "bad_date_submitted body = Some False" and bt: "bad_time_submitted body = Some False"
    and same: "sql_text (merged_date body appt) = x"
              "time_value (sql_text (merged_time body appt)) = time_value (sql_text (appointment_time appt))"
  shows "put_appointment (Up d) i body = respond (Up d) 409 (message slot_message)"
proof -
  from found obtain n where n: "parseInt i = Some n" by (cases "parseInt i") simp_all
  from found n have mem: "appt \<in> set (appointments d)"
    using first_row_found[of n "appointments d" appt rest] by simp
  have "appt \<in> set (filter (\<lambda>r. patient_id r = patient_id appt
                              \<and> sql_text (appointment_date r) = sql_text (merged_date body appt)
                              \<and> time_value (sql_text (appointment_time r))
                                  = time_value (sql_text (merged_time body appt)))
                    (appointments d))"
    using mem same row by simp
  then have "filter (\<lambda>r. patient_id r = patient_id appt
                              \<and> sql_text (appointment_date r) = sql_text (merged_date body appt)
                              \<and> time_value (sql_text (appointment_time r))
                                  = time_value (sql_text (merged_time body appt)))
                    (appointments d) \<noteq> []"
    by (metis empty_iff empty_set)
  then have taken: "isSlotTaken (Up d) (patient_id appt) (merged_date body appt) (merged_time body appt) = Inr True"
    by simp
  from submitted_date_is_not_the_rows[OF row sub bd] taken
  show ?thesis
    by (simp add: put_checked[OF found bd bt] del: isSlotTaken.simps)
qed

text \<open>
  So in every store that the handlers build, an update that submits a date or a time and
  whose merged slot is the row's own is answered 409.
\<close>

lemma own_slot_resubmitted_is_refused:
  assumes rb: "read_back d"
    and found: "select_appointment_by_id (Up d) (parseInt i) = Inr (appt # rest)"
    and bd: "bad_date_submitted body = Some False" and bt: "bad_time_submitted body = Some False"
    and sub: "truthy (body_field body ''AppointmentDate'') \<or> truthy (body_field body ''AppointmentTime'')"
    and own: "(patient_id appt, sql_text (merged_date body appt),
               time_value (sql_text (merged_time body appt))) = slot_key appt"
  shows "put_appointment (Up d) i body = respond (Up d) 409 (message slot_message)"
proof -
  from found obtain n where n: "parseInt i = Some n" by (cases "parseInt i") simp_all
  from found n have mem: "appt \<in> set (appointments d)"
    using first_row_found[of n "appointments d" appt rest] by simp
  with rb have row: "appointment_date appt = JDate (sql_text (appointment_date appt))"
    "appointment_time appt = time_column (appointment_time appt)"
    by (auto simp: read_back_def list_all_iff date_column_def)
  have "appt \<in> set (filter (\<lambda>r. patient_id r = patient_id appt
                              \<and> sql_text (appointment_date r) = sql_text (merged_date body appt)
                              \<and> time_value (sql_text (appointment_time r))
                                  = time_value (sql_text (merged_time body appt)))
                    (appointments d))"
    using mem own by (simp add: slot_key_def)
  then have "filter (\<lambda>r. patient_id r = patient_id appt
                              \<and> sql_text (appointment_date r) = sql_text (merged_date body appt)
                              \<and> time_value (sql_text (appointment_time r))
                                  = time_value (sql_text (merged_time body appt)))
                    (appointments d) \<noteq> []"
    by (metis empty_iff empty_set)
  then have taken: "isSlotTaken (Up d) (patient_id appt) (merged_date body appt) (merged_time body appt) = Inr True"
    by simp
  from sub have "\<not> (merged_date body appt = appointment_date appt
                   \<and> merged_time body appt = appointment_time appt)"
  proof
    assume "truthy (body_field body ''AppointmentDate'')"
    from submitted_date_is_not_the_rows[OF row(1) this bd] show ?thesis by simp
  next
    assume "truthy (body_field body ''AppointmentTime'')"
    from submitted_time_is_not_the_rows[OF row(2) this bt] show ?thesis by simp
  qed
  with taken show ?thesis
    by (simp add: put_checked[OF found bd bt] del: isSlotTaken.simps)
qed

text \<open>An update that submits neither date nor time is answered 200, never 409.\<close>

lemma absent_slot_update_succeeds:
  assumes found: "select_appointment_by_id (Up d) (parseInt i) = Inr (appt # rest)"
    and nd: "\<not> truthy (body_field body ''AppointmentDate'')"
    and nt: "\<not> truthy (body_field body ''AppointmentTime'')"
  shows "reply (put_appointment (Up d) i body) = Sent 200 (updated_body (parseInt i) appt body)"
proof -
  from found obtain n where n: "parseInt i = Some n" by (cases "parseInt i") simp_all
  from nd have bd: "bad_date_submitted body = Some False"
    by (simp add: bad_date_submitted_def submitted_invalid_def)
  from nt have bt: "bad_time_submitted body = Some False"
    by (simp add: bad_time_submitted_def submitted_invalid_def)
  from nd have md: "merged_date body appt = appointment_date appt"
    by (simp add: merged_date_def or_else_def)
  from nt have mt: "merged_time body appt = appointment_time appt"
    by (simp add: merged_time_def or_else_def)
  show ?thesis
    by (simp add: put_checked[OF found bd bt] md mt n respond_def)
qed

lemma map_of_without: "map_of (filter (\<lambda>kv. fst kv \<noteq> k) kvs) k' = (if k' = k then None else map_of kvs k')"
  by (induction kvs) auto

lemma body_field_without:
  "body_field (without_field body k) k' = (if k' = k then JUndefined else body_field body k')"
  by (cases body) (simp_all add: map_of_without)

text \<open>The update handler reads the body through its three fields, and a falsy date or
  time only through its being falsy.\<close>

lemma put_depends_on_fields:
  assumes "body_field b ''AppointmentDate'' = body_field b' ''AppointmentDate'' \<or>
           (\<not> truthy (body_field b ''AppointmentDate'') \<and> \<not> truthy (body_field b' ''AppointmentDate''))"
    and "body_field b ''AppointmentTime'' = body_field b' ''AppointmentTime'' \<or>
           (\<not> truthy (body_field b ''AppointmentTime'') \<and> \<not> truthy (body_field b' ''AppointmentTime''))"
    and "body_field b ''Reason'' = body_field b' ''Reason''"
  shows "put_appointment st i b = put_appointment st i b'"
proof -
  have d: "submitted_invalid isValidDate (body_field b ''AppointmentDate'')
         = submitted_invalid isValidDate (body_field b' ''AppointmentDate'')"
    using assms(1) by (auto simp: submitted_invalid_def)
  have t: "submitted_invalid isValidTime (body_field b ''AppointmentTime'')
         = submitted_invalid isValidTime (body_field b' ''AppointmentTime'')"
    using assms(2) by (auto simp: submitted_invalid_def)
  have od: "or_else (body_field b ''AppointmentDate'') x = or_else (body_field b' ''AppointmentDate'') x" for x
    using assms(1) by (auto simp: or_else_def)
  have ot: "or_else (body_field b ''AppointmentTime'') x = or_else (body_field b' ''AppointmentTime'') x" for x
    using assms(2) by (auto simp: or_else_def)
  show ?thesis
    unfolding put_appointment_def Let_def d t od ot assms(3) ..
qed

lemma appointment_identity_never_400:
  "status (get_appointment st i) \<noteq> Some 400" "status (delete_appointment st i) \<noteq> Some 400"
  by (auto simp: get_appointment_def delete_appointment_def status_def respond_def thrown_def Let_def
      split: sum.splits list.splits prod.splits)

lemma appointment_unknown_identity_404:
  assumes "parseInt i = Some n" and "n \<notin> set (map a_id (appointments d))"
  shows "get_appointment (Up d) i = respond (Up d) 404 (message ''Appointment not found'')"
    and "delete_appointment (Up d) i = respond (Up d) 404 (message ''Appointment not found'')"
proof -
  have e: "filter (\<lambda>r. a_id r = n) (appointments d) = []"
    using assms(2) by (auto simp: filter_empty_conv)
  have k: "filter (\<lambda>r. a_id r \<noteq> n) (appointments d) = appointments d"
    using assms(2) by (auto simp: filter_id_conv)
  show "get_appointment (Up d) i = respond (Up d) 404 (message ''Appointment not found'')"
    by (simp add: get_appointment_def assms(1) e)
  show "delete_appointment (Up d) i = respond (Up d) 404 (message ''Appointment not found'')"
    by (simp add: delete_appointment_def assms(1) e k)
qed

text \<open>The answers of an update to a date and to a time it refuses differ.\<close>

lemma messages_differ: "date_message \<noteq> time_message"
  by (simp add: date_message_def time_message_def)

section \<open>The claims\<close>



text \<open>
  C2. The claim: an update that does not change the date or the time of a live record,
  be it by resubmitting their current values or by submitting neither, is never answered
  409 and succeeds. With neither field submitted it does succeed
  (\<open>absent_slot_update_succeeds\<close> above). With the current values resubmitted the code
  does not do it. The appointment created from the start-up store with the date
  \<^verbatim>\<open>2025-08-20\<close> and the time \<^verbatim>\<open>14:30\<close> is read back with a \<^verbatim>\<open>Date\<close> object
  and the string \<^verbatim>\<open>14:30:00\<close>; the resubmitted strings name the row's own slot, which
  no other row holds, but they are not \<^verbatim>\<open>===\<close> to the values of the row, and the
  handler answers 409. The same holds when the time alone is resubmitted, and in every
  store that the handlers build (\<open>own_slot_resubmitted_is_refused\<close> above).
\<close>

theorem resubmitted_slot_is_refused:
  "store (post_appointments (Up startup_db) checkup_body) = Up booked_db \<and>
   consistent booked_db \<and>
   select_appointment_by_id (Up booked_db) (parseInt ''1'') = Inr [first_row] \<and>
   bad_date_submitted resubmit_body = Some False \<and>
   bad_time_submitted resubmit_body = Some False \<and>
   (patient_id first_row, sql_text (merged_date resubmit_body first_row),
      time_value (sql_text (merged_time resubmit_body first_row))) = slot_key first_row \<and>
   \<not> spec_slotTaken_excluding booked_db (a_id first_row) (patient_id first_row)
        (sql_text (merged_date resubmit_body first_row))
        (sql_text (merged_time resubmit_body first_row)) \<and>
   put_appointment (Up booked_db) ''1'' resubmit_body = respond (Up booked_db) 409 (message slot_message) \<and>
   (patient_id first_row, sql_text (merged_date move_body first_row),
      time_value (sql_text (merged_time move_body first_row))) = slot_key first_row \<and>
   put_appointment (Up booked_db) ''1'' move_body = respond (Up booked_db) 409 (message slot_message) \<and>
   reply (put_appointment (Up booked_db) ''1'' reason_body) =
     Sent 200 (updated_body (parseInt ''1'') first_row reason_body)"
  by code_simp

text \<open>
  C3. The claim: the checks of a creation run in the order patient identity, date, time,
  reason, patient existence, slot conflict, so that a request with a malformed date is
  always answered with a validation error and never with 404 or 409. The order is as
  claimed, a date the validator refuses is answered 400, and no date that is not accepted
  is answered 404 or 409 (\<open>create_checks_in_order\<close> above). But a malformed date is not
  always answered 400: on an object with a property \<open>toString\<close> the validator throws
  (C5), the handler does not catch it, and no answer is sent.
\<close>

theorem malformed_date_unanswered:
  "\<not> invalid_patient_id (body_field object_date_body ''PatientId'') \<and>
   \<not> is_string (body_field object_date_body ''AppointmentDate'') \<and>
   isValidDate (body_field object_date_body ''AppointmentDate'') = None \<and>
   post_appointments (Up startup_db) object_date_body = thrown (Up startup_db) type_error \<and>
   status (post_appointments (Up startup_db) object_date_body) = None"
  by code_simp




text \<open>
  C5. The claim: for every input, \<open>validateDate\<close> is true iff the input is a string of
  the shape \<^verbatim>\<open>^\d{4}-\d{2}-\d{2}$\<close> and \<open>validateTime\<close> is true iff it is a string
  of the shape \<^verbatim>\<open>^([01]\d|2[0-3]):[0-5]\d$\<close>, and a non-string input gives false
  and never throws. On strings this is \<open>date_shape\<close> and \<open>time_shape\<close> above. On
  other values the code does not do it: \<^verbatim>\<open>test\<close> takes the text of its argument, so
  an array holding one well-formed string passes both validators although it is not a
  string, and an object with a property \<open>toString\<close> makes both throw, and with them the
  creation handler.
\<close>

theorem validators_accept_arrays:
  "isValidDate (JArr [JStr ''2025-08-20'']) = Some True \<and>
   isValidTime (JArr [JStr ''14:30'']) = Some True \<and>
   \<not> is_string (JArr [JStr ''2025-08-20'']) \<and> \<not> is_string (JArr [JStr ''14:30'']) \<and>
   isValidDate (JObj [(''toString'', JNum 1)]) = None \<and>
   isValidTime (JObj [(''toString'', JNum 1)]) = None \<and>
   post_appointments (Up startup_db) object_date_body = thrown (Up startup_db) type_error"
  by code_simp

text \<open>
  C6. The claim: under slot exclusivity the conflict test of the update handler (the
  merged slot is taken and is not the row's own) decides as the specified test does (the
  merged slot is taken by a row other than the appointment itself). One direction holds:
  when another row holds the merged slot the handler answers 409
  (\<open>other_row_conflict\<close> above, and C1). The other does not, for the handler decides
  that the slot is the row's own with \<^verbatim>\<open>===\<close> on the values: the array holding the
  row's own date names the row's own slot, the handler finds it different from the row's
  value and answers 409, while no other row holds the slot.
\<close>

theorem update_conflict_differs_on_array:
  "consistent booked_db \<and>
   select_appointment_by_id (Up booked_db) (parseInt ''1'') = Inr [first_row] \<and>
   bad_date_submitted array_date_body = Some False \<and>
   bad_time_submitted array_date_body = Some False \<and>
   put_appointment (Up booked_db) ''1'' array_date_body = respond (Up booked_db) 409 (message slot_message) \<and>
   \<not> spec_slotTaken_excluding booked_db (a_id first_row) (patient_id first_row)
        (sql_text (merged_date array_date_body first_row))
        (sql_text (merged_time array_date_body first_row))"
  by code_simp

text \<open>
  C7. The claim: fetching, updating and deleting an appointment answer 400 on an
  identity that is not numeric or not positive. The code does not: unlike the patient
  handlers, the appointment handlers pass the result of \<open>parseInt\<close> to the query
  unchecked, so \<open>0\<close> and \<open>-5\<close> are answered 404 and a non-numeric identity reaches
  the storage as \<open>NaN\<close>. That an identity naming no row is answered 404 holds
  (\<open>appointment_unknown_identity_404\<close> above, and C9 for the update).
\<close>

theorem appointment_identity_unchecked:
  "invalid_id (parseInt ''0'') \<and> invalid_id (parseInt ''-5'') \<and> invalid_id (parseInt ''abc'') \<and>
   get_patient (Up booked_db) ''0'' = respond (Up booked_db) 400 (message ''Invalid PatientId'') \<and>
   get_appointment (Up booked_db) ''0'' = respond (Up booked_db) 404 (message ''Appointment not found'') \<and>
   put_appointment (Up booked_db) ''0'' move_body = respond (Up booked_db) 404 (message ''Appointment not found'') \<and>
   delete_appointment (Up booked_db) ''0'' = respond (Up booked_db) 404 (message ''Appointment not found'') \<and>
   get_appointment (Up booked_db) ''-5'' = respond (Up booked_db) 404 (message ''Appointment not found'') \<and>
   put_appointment (Up booked_db) ''-5'' move_body = respond (Up booked_db) 404 (message ''Appointment not found'') \<and>
   delete_appointment (Up booked_db) ''-5'' = respond (Up booked_db) 404 (message ''Appointment not found'') \<and>
   get_appointment (Up booked_db) ''abc'' = thrown (Up booked_db) nan_error \<and>
   put_appointment (Up booked_db) ''abc'' move_body = thrown (Up booked_db) nan_error \<and>
   delete_appointment (Up booked_db) ''abc'' = thrown (Up booked_db) nan_error"
  by code_simp






text \<open>
  C10. In an update of a live record, a falsy date is treated as an absent one. The
  handler answers as it does to the body without that property; it does not call the
  validator on it, so the answer is not the validation error of the date; and it goes on
  with the date of the row: after the check of the time, the slot it looks up, the row it
  writes and the record it sends back have the row's current date, with the time and the
  reason as the body gives them. The same holds of a falsy time, with the row's current
  time.
\<close>

theorem falsy_field_is_absent_field:
  assumes found: "select_appointment_by_id st (parseInt i) = Inr (appt # rest)"
  shows
  "(\<not> truthy (body_field body ''AppointmentDate'') \<longrightarrow>
      put_appointment st i body = put_appointment st i (without_field body ''AppointmentDate'') \<and>
      reply (put_appointment st i body) \<noteq> Sent 400 (message date_message) \<and>
      put_appointment st i body =
        (case bad_time_submitted body of
           None \<Rightarrow> thrown st type_error
         | Some bad_time \<Rightarrow>
             if bad_time then respond st 400 (message time_message)
             else case isSlotTaken st (patient_id appt) (appointment_date appt)
                         (merged_time body appt) of
                    Inl e \<Rightarrow> thrown st e
                  | Inr taken \<Rightarrow>
                      if taken \<and> merged_time body appt \<noteq> appointment_time appt
                      then respond st 409 (message slot_message)
                      else case update_appointment st (appointment_date appt)
                                  (merged_time body appt) (merged_reason body appt) (parseInt i) of
                             Inl e \<Rightarrow> thrown st e
                           | Inr st' \<Rightarrow>
                               respond st' 200
                                 (JObj [(''AppointmentId'', num_json (parseInt i)),
                                        (''PatientId'', JNum (patient_id appt)),
                                        (''AppointmentDate'', appointment_date appt),
                                        (''AppointmentTime'', merged_time body appt),
                                        (''Reason'', JStr (merged_reason body appt)),
                                        (''Message'', JStr ''Appointment updated successfully'')]))) \<and>
   (\<not> truthy (body_field body ''AppointmentTime'') \<longrightarrow>
      put_appointment st i body = put_appointment st i (without_field body ''AppointmentTime'') \<and>
      reply (put_appointment st i body) \<noteq> Sent 400 (message time_message) \<and>
      put_appointment st i body =
        (case bad_date_submitted body of
           None \<Rightarrow> thrown st type_error
         | Some bad_date \<Rightarrow>
             if bad_date then respond st 400 (message date_message)
             else case isSlotTaken st (patient_id appt) (merged_date body appt)
                         (appointment_time appt) of
                    Inl e \<Rightarrow> thrown st e
                  | Inr taken \<Rightarrow>
                      if taken \<and> merged_date body appt \<noteq> appointment_date appt
                      then respond st 409 (message slot_message)
                      else case update_appointment st (merged_date body appt)
                                  (appointment_time appt) (merged_reason body appt) (parseInt i) of
                             Inl e \<Rightarrow> thrown st e
                           | Inr st' \<Rightarrow>
                               respond st' 200
                                 (JObj [(''AppointmentId'', num_json (parseInt i)),
                                        (''PatientId'', JNum (patient_id appt)),
                                        (''AppointmentDate'', merged_date body appt),
                                        (''AppointmentTime'', appointment_time appt),
                                        (''Reason'', JStr (merged_reason body appt)),
                                        (''Message'', JStr ''Appointment updated successfully'')])))"
proof (intro conjI impI)
  assume f: "\<not> truthy (body_field body ''AppointmentDate'')"
  show "put_appointment st i body = put_appointment st i (without_field body ''AppointmentDate'')"
    by (rule put_depends_on_fields) (simp_all add: body_field_without f)
  from f have bd: "bad_date_submitted body = Some False"
    by (simp add: bad_date_submitted_def submitted_invalid_def)
  from f have md: "merged_date body appt = appointment_date appt"
    by (simp add: merged_date_def or_else_def)
  show eq: "put_appointment st i body =
        (case bad_time_submitted body of
           None \<Rightarrow> thrown st type_error
         | Some bad_time \<Rightarrow>
             if bad_time then respond st 400 (message time_message)
             else case isSlotTaken st (patient_id appt) (appointment_date appt)
                         (merged_time body appt) of
                    Inl e \<Rightarrow> thrown st e
                  | Inr taken \<Rightarrow>
                      if taken \<and> merged_time body appt \<noteq> appointment_time appt
                      then respond st 409 (message slot_message)
                      else case update_appointment st (appointment_date appt)
                                  (merged_time body appt) (merged_reason body appt) (parseInt i) of
                             Inl e \<Rightarrow> thrown st e
                           | Inr st' \<Rightarrow>
                               respond st' 200
                                 (JObj [(''AppointmentId'', num_json (parseInt i)),
                                        (''PatientId'', JNum (patient_id appt)),
                                        (''AppointmentDate'', appointment_date appt),
                                        (''AppointmentTime'', merged_time body appt),
                                        (''Reason'', JStr (merged_reason body appt)),
                                        (''Message'', JStr ''Appointment updated successfully'')]))"
  proof (cases "bad_time_submitted body")
    case None
    then show ?thesis by (simp add: put_time_throws[OF found bd None])
  next
    case (Some b)
    show ?thesis
    proof (cases b)
      case True
      with Some have bt: "bad_time_submitted body = Some True" by simp
      show ?thesis by (simp add: put_bad_time[OF found bd bt] bt)
    next
      case False
      with Some have bt: "bad_time_submitted body = Some False" by simp
      show ?thesis
        unfolding put_checked[OF found bd bt] bt md updated_body_def
        by (simp split: sum.splits del: isSlotTaken.simps update_appointment.simps)
    qed
  qed
  show "reply (put_appointment st i body) \<noteq> Sent 400 (message date_message)"
    unfolding eq
    using messages_differ
    by (auto simp: respond_def thrown_def message_def
        simp del: isSlotTaken.simps update_appointment.simps
        split: option.splits sum.splits)
next
  assume f: "\<not> truthy (body_field body ''AppointmentTime'')"
  show "put_appointment st i body = put_appointment st i (without_field body ''AppointmentTime'')"
    by (rule put_depends_on_fields) (simp_all add: body_field_without f)
  from f have bt: "bad_time_submitted body = Some False"
    by (simp add: bad_time_submitted_def submitted_invalid_def)
  from f have mt: "merged_time body appt = appointment_time appt"
    by (simp add: merged_time_def or_else_def)
  show eq: "put_appointment st i body =
        (case bad_date_submitted body of
           None \<Rightarrow> thrown st type_error
         | Some bad_date \<Rightarrow>
             if bad_date then respond st 400 (message date_message)
             else case isSlotTaken st (patient_id appt) (merged_date body appt)
                         (appointment_time appt) of
                    Inl e \<Rightarrow> thrown st e
                  | Inr taken \<Rightarrow>
                      if taken \<and> merged_date body appt \<noteq> appointment_date appt
                      then respond st 409 (message slot_message)
                      else case update_appointment st (merged_date body appt)
                                  (appointment_time appt) (merged_reason body appt) (parseInt i) of
                             Inl e \<Rightarrow> thrown st e
                           | Inr st' \<Rightarrow>
                               respond st' 200
                                 (JObj [(''AppointmentId'', num_json (parseInt i)),
                                        (''PatientId'', JNum (patient_id appt)),
                                        (''AppointmentDate'', merged_date body appt),
                                        (''AppointmentTime'', appointment_time appt),
                                        (''Reason'', JStr (merged_reason body appt)),
                                        (''Message'', JStr ''Appointment updated successfully'')]))"
  proof (cases "bad_date_submitted body")
    case None
    then show ?thesis by (simp add: put_date_throws[OF found None])
  next
    case (Some b)
    show ?thesis
    proof (cases b)
      case True
      with Some have bd: "bad_date_submitted body = Some True" by simp
      show ?thesis by (simp add: put_bad_date[OF found bd] bd)
    next
      case False
      with Some have bd: "bad_date_submitted body = Some False" by simp
      show ?thesis
        unfolding put_checked[OF found bd bt] bd mt updated_body_def
        by (simp split: sum.splits del: isSlotTaken.simps update_appointment.simps)
    qed
  qed
  show "reply (put_appointment st i body) \<noteq> Sent 400 (message time_message)"
    unfolding eq
    using messages_differ
    by (auto simp: respond_def thrown_def message_def
        simp del: isSlotTaken.simps update_appointment.simps
        split: option.splits sum.splits)
qed

text \<open>
  C10, at the store \<open>booked_db\<close>. An empty string as date with the time
  \<^verbatim>\<open>15:00\<close>: the row keeps its date and takes the new time. \<open>null\<close> as time with a
  new reason: the row keeps its date and its time and takes the reason.
\<close>

theorem falsy_field_is_absent_field_witness:
  "select_appointment_by_id (Up booked_db) (parseInt ''1'') = Inr [first_row] \<and>
   \<not> truthy (body_field empty_date_body ''AppointmentDate'') \<and>
   put_appointment (Up booked_db) ''1'' empty_date_body =
     put_appointment (Up booked_db) ''1'' (without_field empty_date_body ''AppointmentDate'') \<and>
   reply (put_appointment (Up booked_db) ''1'' empty_date_body) \<noteq> Sent 400 (message date_message) \<and>
   put_appointment (Up booked_db) ''1'' empty_date_body =
     respond (Up (booked_db\<lparr>appointments :=
                    [first_row\<lparr>appointment_time := JStr ''15:00:00''\<rparr>]\<rparr>)) 200
       (JObj [(''AppointmentId'', JNum 1), (''PatientId'', JNum 1),
              (''AppointmentDate'', JDate ''2025-08-20''), (''AppointmentTime'', JStr ''15:00''),
              (''Reason'', JStr ''checkup''),
              (''Message'', JStr ''Appointment updated successfully'')]) \<and>
   \<not> truthy (body_field null_time_body ''AppointmentTime'') \<and>
   put_appointment (Up booked_db) ''1'' null_time_body =
     put_appointment (Up booked_db) ''1'' (without_field null_time_body ''AppointmentTime'') \<and>
   reply (put_appointment (Up booked_db) ''1'' null_time_body) \<noteq> Sent 400 (message time_message) \<and>
   put_appointment (Up booked_db) ''1'' null_time_body =
     respond (Up (booked_db\<lparr>appointments := [first_row\<lparr>reason := ''moved''\<rparr>]\<rparr>)) 200
       (JObj [(''AppointmentId'', JNum 1), (''PatientId'', JNum 1),
              (''AppointmentDate'', JDate ''2025-08-20''), (''AppointmentTime'', JStr ''14:30:00''),
              (''Reason'', JStr ''moved''),
              (''Message'', JStr ''Appointment updated successfully'')])"
proof -
  have f: "select_appointment_by_id (Up booked_db) (parseInt ''1'') = Inr [first_row]" by code_simp
  have d: "\<not> truthy (body_field empty_date_body ''AppointmentDate'')" by code_simp
  have t: "\<not> truthy (body_field null_time_body ''AppointmentTime'')" by code_simp
  note kd = mp[OF conjunct1[OF falsy_field_is_absent_field[OF f, of empty_date_body]] d]
  note kt = mp[OF conjunct2[OF falsy_field_is_absent_field[OF f, of null_time_body]] t]
  note r1 = conjunct1[OF kd]
  note r2 = conjunct1[OF conjunct2[OF kd]]
  note ed = conjunct2[OF conjunct2[OF kd]]
  note r4 = conjunct1[OF kt]
  note r5 = conjunct1[OF conjunct2[OF kt]]
  note et = conjunct2[OF conjunct2[OF kt]]
  have r3: "put_appointment (Up booked_db) ''1'' empty_date_body =
     respond (Up (booked_db\<lparr>appointments :=
                    [first_row\<lparr>appointment_time := JStr ''15:00:00''\<rparr>]\<rparr>)) 200
       (JObj [(''AppointmentId'', JNum 1), (''PatientId'', JNum 1),
              (''AppointmentDate'', JDate ''2025-08-20''), (''AppointmentTime'', JStr ''15:00''),
              (''Reason'', JStr ''checkup''),
              (''Message'', JStr ''Appointment updated successfully'')])"
    by (subst ed) code_simp
  have r6: "put_appointment (Up booked_db) ''1'' null_time_body =
     respond (Up (booked_db\<lparr>appointments := [first_row\<lparr>reason := ''moved''\<rparr>]\<rparr>)) 200
       (JObj [(''AppointmentId'', JNum 1), (''PatientId'', JNum 1),
              (''AppointmentDate'', JDate ''2025-08-20''), (''AppointmentTime'', JStr ''14:30:00''),
              (''Reason'', JStr ''moved''),
              (''Message'', JStr ''Appointment updated successfully'')])"
    by (subst et) code_simp
  show ?thesis
    by (intro conjI) (rule f d t r1 r2 r3 r4 r5 r6)+
qed

end
